theory Spec2Isabelle
  imports Complex_Main
begin

section \<open>Raw HTCondor job records\<close>

text \<open>
  One entry of the history file is a JSON object; the scripts read it with
  \<^verbatim>\<open>job.get(name)\<close> and \<^verbatim>\<open>job.get(name, 0)\<close>. It is modelled as a
  map from field names to JSON numbers (exact rationals).

  A \<^verbatim>\<open>datetime\<close> is naive: a reading of the local clock. It is represented
  by the number of seconds between a fixed origin and that reading, so the
  difference of two datetimes in seconds is the difference of the two numbers.
\<close>

type_synonym raw_job = "string \<rightharpoonup> rat"

type_synonym datetime = rat

text \<open>
  The exceptions that end a call: a division by zero, the built-in \<^verbatim>\<open>max\<close>
  of an empty list, \<^verbatim>\<open>pd.date_range\<close> asked for a negative number of
  periods, a timestamp that \<^verbatim>\<open>datetime.fromtimestamp\<close> cannot convert, and
  a method looked up on a value that does not have it.
\<close>

datatype error =
  ZeroDivisionError | ValueError | InvalidPeriods | OverflowError | AttributeError

text \<open>
  \<^verbatim>\<open>datetime.fromtimestamp\<close> turns seconds since the epoch into the local
  clock reading. The result depends on the time zone of the machine (two
  timestamps an hour apart can give the same reading where the clock is set
  back), and the call raises for a timestamp outside the range of the
  platform. The conversion is therefore a parameter of the normalizer, of this
  type; \<open>Inr\<close> itself is the conversion of a machine whose clock runs on UTC,
  with no limit of range.
\<close>

type_synonym conversion = "rat \<Rightarrow> error + datetime"

text \<open>\<^verbatim>\<open>job.get(name, default)\<close>\<close>

definition get_or :: "raw_job \<Rightarrow> string \<Rightarrow> rat \<Rightarrow> rat" where
  "get_or job name dflt = (case job name of None \<Rightarrow> dflt | Some v \<Rightarrow> v)"

text \<open>
  Python truth value of the result of \<^verbatim>\<open>job.get(name)\<close>: \<^verbatim>\<open>None\<close> is
  false, and so is the number zero.
\<close>

definition truthy :: "rat option \<Rightarrow> bool" where
  "truthy v = (case v of None \<Rightarrow> False | Some x \<Rightarrow> x \<noteq> 0)"

text \<open>
  \<^verbatim>\<open>datetime.fromtimestamp(t) if t else None\<close>: the conversion is called
  only on a value that is present and not zero, and its exception, if any, is
  the result.
\<close>

definition fromtimestamp_if :: "conversion \<Rightarrow> rat option \<Rightarrow> error + datetime option" where
  "fromtimestamp_if fromtimestamp t =
     (if truthy t
      then (case fromtimestamp (the t) of Inl e \<Rightarrow> Inl e | Inr d \<Rightarrow> Inr (Some d))
      else Inr None)"

text \<open>
  \<^verbatim>\<open>d = None; if a and b: d = b - a\<close>, the pattern of every duration of
  \<^verbatim>\<open>condor_to_parquet.py\<close>.
\<close>

definition duration_if :: "rat option \<Rightarrow> rat option \<Rightarrow> rat option" where
  "duration_if a b = (if truthy a \<and> truthy b then Some (the b - the a) else None)"

section \<open>condor\_to\_parquet.py: one row per job\<close>

record job_record =
  cluster_id :: "rat option"
  proc_id :: "rat option"
  job_status :: rat
  exit_code :: rat
  failed :: bool
  job_start_time :: "datetime option"
  input_start_time :: "datetime option"
  input_end_time :: "datetime option"
  output_start_time :: "datetime option"
  output_end_time :: "datetime option"
  job_end_time :: "datetime option"
  completion_time :: "datetime option"
  input_transfer_duration :: "rat option"
  job_duration :: "rat option"
  output_transfer_duration :: "rat option"
  total_duration :: "rat option"

text \<open>
  The body of the loop of \<^verbatim>\<open>parse_condor_history\<close> in
  \<^verbatim>\<open>condor_to_parquet.py\<close>. The seven conversions run in the order of the
  source, before the durations, which are differences of the raw timestamps;
  the first conversion that raises ends the call, and no record is built.
\<close>

definition parquet_record :: "conversion \<Rightarrow> raw_job \<Rightarrow> error + job_record" where
  "parquet_record fromtimestamp job =
    (let proc = job ''ProcId'';
         cluster = job ''ClusterId'';
         status = get_or job ''JobStatus'' 0;
         code = get_or job ''ExitCode'' 0;
         job_start_timestamp = job ''JobCurrentStartDate'';
         input_start_timestamp = job ''JobCurrentStartTransferInputDate'';
         input_end_timestamp = job ''JobCurrentFinishTransferInputDate'';
         output_start_timestamp = job ''JobCurrentStartTransferOutputDate'';
         output_end_timestamp = job ''JobCurrentFinishTransferOutputDate'';
         job_end_timestamp = job ''JobFinishedHookTime'';
         completion_timestamp = job ''CompletionDate''
     in case fromtimestamp_if fromtimestamp job_start_timestamp of Inl e \<Rightarrow> Inl e
        | Inr job_start \<Rightarrow>
       (case fromtimestamp_if fromtimestamp input_start_timestamp of Inl e \<Rightarrow> Inl e
        | Inr input_start \<Rightarrow>
       (case fromtimestamp_if fromtimestamp input_end_timestamp of Inl e \<Rightarrow> Inl e
        | Inr input_end \<Rightarrow>
       (case fromtimestamp_if fromtimestamp output_start_timestamp of Inl e \<Rightarrow> Inl e
        | Inr output_start \<Rightarrow>
       (case fromtimestamp_if fromtimestamp output_end_timestamp of Inl e \<Rightarrow> Inl e
        | Inr output_end \<Rightarrow>
       (case fromtimestamp_if fromtimestamp job_end_timestamp of Inl e \<Rightarrow> Inl e
        | Inr job_end \<Rightarrow>
       (case fromtimestamp_if fromtimestamp completion_timestamp of Inl e \<Rightarrow> Inl e
        | Inr completion \<Rightarrow>
          Inr \<lparr> cluster_id = cluster,
                proc_id = proc,
                job_status = status,
                exit_code = code,
                failed = (status \<noteq> 4 \<or> code \<noteq> 0),
                job_start_time = job_start,
                input_start_time = input_start,
                input_end_time = input_end,
                output_start_time = output_start,
                output_end_time = output_end,
                job_end_time = job_end,
                completion_time = completion,
                input_transfer_duration =
                  duration_if input_start_timestamp input_end_timestamp,
                job_duration = duration_if job_start_timestamp job_end_timestamp,
                output_transfer_duration =
                  duration_if output_start_timestamp output_end_timestamp,
                total_duration =
                  duration_if job_start_timestamp completion_timestamp \<rparr>)))))))"

text \<open>The loop over the jobs: an exception in one record ends the whole parse.\<close>

fun parquet_parse_condor_history :: "conversion \<Rightarrow> raw_job list \<Rightarrow> error + job_record list" where
  "parquet_parse_condor_history fromtimestamp [] = Inr []"
| "parquet_parse_condor_history fromtimestamp (job # data) =
     (case parquet_record fromtimestamp job of
        Inl e \<Rightarrow> Inl e
      | Inr r \<Rightarrow>
          (case parquet_parse_condor_history fromtimestamp data of
             Inl e \<Rightarrow> Inl e
           | Inr rs \<Rightarrow> Inr (r # rs)))"

section \<open>gantt\_chart.py: phase records\<close>

datatype phase = Input_Transfer | Job_Execution | Output_Transfer

record phase_record =
  ph_job_id :: "rat option"
  ph_cluster_id :: "rat option"
  ph_phase :: phase
  start_time :: datetime
  end_time :: datetime
  duration :: rat
  ph_failed :: bool

definition phase_row ::
  "raw_job \<Rightarrow> bool \<Rightarrow> phase \<Rightarrow> rat \<Rightarrow> rat \<Rightarrow> phase_record" where
  "phase_row job fl ph s e =
     \<lparr> ph_job_id = job ''ProcId'', ph_cluster_id = job ''ClusterId'', ph_phase = ph,
       start_time = s, end_time = e, duration = e - s, ph_failed = fl \<rparr>"

text \<open>
  The body of the loop of \<^verbatim>\<open>parse_condor_history\<close> in \<^verbatim>\<open>gantt_chart.py\<close>:
  the records one job appends, in order. The columns \<open>start_time\<close> and
  \<open>end_time\<close> of a phase record hold the two timestamps that the script hands
  to \<^verbatim>\<open>datetime.fromtimestamp\<close>, and \<open>duration\<close> is their difference, as in
  the source.
\<close>

definition gantt_records :: "raw_job \<Rightarrow> phase_record list" where
  "gantt_records job =
    (let status = get_or job ''JobStatus'' 0;
         code = get_or job ''ExitCode'' 0;
         fl = (status \<noteq> 4 \<or> code \<noteq> 0);
         input_start = job ''JobCurrentStartTransferInputDate'';
         input_end = job ''JobCurrentFinishTransferInputDate'';
         output_start = job ''JobCurrentStartTransferOutputDate'';
         output_end = job ''JobCurrentFinishTransferOutputDate'';
         completion_date = job ''CompletionDate''
     in (if truthy input_start \<and> truthy input_end
         then [phase_row job fl Input_Transfer (the input_start) (the input_end)] else [])
      @ (if truthy input_end \<and> truthy output_start
         then [phase_row job fl Job_Execution (the input_end) (the output_start)] else [])
      @ (if truthy output_start \<and> truthy output_end
         then [phase_row job fl Output_Transfer (the output_start) (the output_end)]
         else if fl \<and> truthy output_start \<and> truthy completion_date
         then [phase_row job fl Output_Transfer (the output_start) (the completion_date)]
         else []))"

definition gantt_parse_condor_history :: "raw_job list \<Rightarrow> phase_record list" where
  "gantt_parse_condor_history data = concat (map gantt_records data)"

section \<open>plot\_gantt\_phases.py: the bars drawn for one row\<close>

text \<open>\<^verbatim>\<open>pd.notna\<close> on a cell of the table.\<close>

definition notna :: "'a option \<Rightarrow> bool" where
  "notna v = (v \<noteq> None)"

record phase_bar =
  bar_phase :: phase
  bar_start :: datetime
  bar_end :: datetime
  bar_duration :: rat

text \<open>
  One of the three blocks of the loop of \<^verbatim>\<open>plot_gantt_phases\<close>: the bar is
  drawn (and its duration recorded in \<^verbatim>\<open>phase_stats\<close>) only when both
  instants are present and the duration is positive.
\<close>

definition bar_if :: "phase \<Rightarrow> datetime option \<Rightarrow> datetime option \<Rightarrow> phase_bar list" where
  "bar_if ph s e =
    (if notna s \<and> notna e
     then (let dur = the e - the s
           in if dur > 0
              then [\<lparr> bar_phase = ph, bar_start = the s, bar_end = the e, bar_duration = dur \<rparr>]
              else [])
     else [])"

definition plot_gantt_phases_row :: "job_record \<Rightarrow> phase_bar list" where
  "plot_gantt_phases_row row =
     bar_if Input_Transfer (input_start_time row) (input_end_time row)
   @ bar_if Job_Execution (input_end_time row) (output_start_time row)
   @ bar_if Output_Transfer (output_start_time row) (output_end_time row)"

section \<open>Column statistics\<close>

text \<open>Mean of a non-empty column (\<^verbatim>\<open>Series.mean\<close>, \<^verbatim>\<open>np.mean\<close>).\<close>

definition mean :: "rat list \<Rightarrow> rat" where
  "mean xs = sum_list xs / of_nat (length xs)"

text \<open>
  Median of a non-empty column (\<^verbatim>\<open>Series.median\<close>, \<^verbatim>\<open>np.median\<close>): the
  middle element of the sorted values, or the mean of the two middle ones.
\<close>

definition median :: "rat list \<Rightarrow> rat" where
  "median xs =
    (let s = sort xs; n = length s
     in if odd n then s ! (n div 2)
        else (s ! (n div 2 - 1) + s ! (n div 2)) / 2)"


text \<open>Minimum and maximum of a non-empty column.\<close>

definition series_min :: "rat list \<Rightarrow> rat" where
  "series_min xs = fold min (tl xs) (hd xs)"

definition series_max :: "rat list \<Rightarrow> rat" where
  "series_max xs = fold max (tl xs) (hd xs)"

section \<open>plot\_concurrent\_jobs.py\<close>

text \<open>
  \<^verbatim>\<open>pd.date_range(start=start, periods=periods, freq=f'{freq}s')\<close>:
  \<open>periods\<close> instants, \<open>freq\<close> seconds apart (descending when \<open>freq\<close> is
  negative).
\<close>

definition date_range :: "datetime \<Rightarrow> int \<Rightarrow> int \<Rightarrow> error + datetime list" where
  "date_range start periods freq =
    (if periods < 0 then Inl InvalidPeriods
     else Inr (map (\<lambda>k. start + of_nat k * of_int freq) [0..<nat periods]))"

text \<open>
  The body of the loop over the bins: the two comparisons give one boolean per
  row, the rows where both hold are selected, and their number is appended.
\<close>

definition count_running :: "job_record list \<Rightarrow> datetime \<Rightarrow> nat" where
  "count_running df_valid bin_center =
    (let started = map (\<lambda>j. the (job_start_time j) \<le> bin_center) df_valid;
         unfinished = map (\<lambda>j. the (completion_time j) > bin_center) df_valid;
         mask = map2 (\<and>) started unfinished;
         running = map fst (filter snd (zip df_valid mask))
     in length running)"

definition bin_center_at :: "datetime list \<Rightarrow> nat \<Rightarrow> datetime" where
  "bin_center_at time_bins i =
    (let bin_start = time_bins ! i; bin_end = time_bins ! (i + 1)
     in bin_start + (bin_end - bin_start) / 2)"

record concurrency =
  bin_centers :: "datetime list"
  bin_centers_hours :: "rat list"
  concurrent_counts :: "nat list"
  max_concurrent :: nat
  mean_concurrent :: rat
  median_concurrent :: rat

text \<open>
  \<^verbatim>\<open>plot_concurrent_jobs(df, output_file, resolution_seconds)\<close> up to the
  statistics it prints; the drawing that follows is not modelled. The result is
  \<open>None\<close> when the function returns early for want of valid rows.
\<close>

definition plot_concurrent_jobs :: "job_record list \<Rightarrow> int \<Rightarrow> error + concurrency option" where
  "plot_concurrent_jobs df resolution_seconds =
    (let df_valid = filter (\<lambda>j. notna (job_start_time j) \<and> notna (completion_time j)) df
     in if length df_valid = 0 then Inr None
        else
          let start_time = series_min (map (\<lambda>j. the (job_start_time j)) df_valid);
              end_time = series_max (map (\<lambda>j. the (completion_time j)) df_valid);
              total = end_time - start_time
          in if resolution_seconds = 0 then Inl ZeroDivisionError
             else
               let num_bins = \<lceil>total / of_int resolution_seconds\<rceil>
               in case date_range start_time (num_bins + 1) resolution_seconds of
                    Inl e \<Rightarrow> Inl e
                  | Inr time_bins \<Rightarrow>
                      let centers = map (bin_center_at time_bins) [0..<length time_bins - 1];
                          counts = map (count_running df_valid) centers
                      in if counts = [] then Inl ValueError
                         else Inr (Some
                           \<lparr> bin_centers = centers,
                             bin_centers_hours = map (\<lambda>c. (c - start_time) / 3600) centers,
                             concurrent_counts = counts,
                             max_concurrent = fold max (tl counts) (hd counts),
                             mean_concurrent = mean (map of_nat counts),
                             median_concurrent = median (map of_nat counts) \<rparr>))"

section \<open>plot\_completion\_curve.py\<close>

record completion_curve =
  curve :: "(datetime \<times> nat) list"
  first_completion :: datetime
  last_completion :: datetime
  elapsed_seconds :: rat
  jobs_per_minute :: rat

text \<open>
  \<^verbatim>\<open>plot_completion_curve(df)\<close> up to the statistics it prints. With no
  completed row the column holds no datetime at all, its minimum and maximum
  are not datetimes, and \<^verbatim>\<open>(last_completion - first_completion).total_seconds()\<close>
  raises. Otherwise the rate is computed as
  \<^verbatim>\<open>len(df_complete) / (total_duration/60)\<close>, a division of Python floats
  that raises when the divisor is zero.
\<close>

definition plot_completion_curve :: "job_record list \<Rightarrow> error + completion_curve" where
  "plot_completion_curve df =
    (let df_complete = filter (\<lambda>j. notna (completion_time j)) df;
         times = sort_key (\<lambda>t. t) (map (\<lambda>j. the (completion_time j)) df_complete);
         cumulative = zip times [1..<length times + 1]
     in if times = [] then Inl AttributeError
        else
          let first = series_min times;
              last = series_max times;
              total = last - first
          in if total / 60 = 0 then Inl ZeroDivisionError
             else Inr \<lparr> curve = cumulative, first_completion = first,
                        last_completion = last, elapsed_seconds = total,
                        jobs_per_minute = of_nat (length times) / (total / 60) \<rparr>)"

section \<open>plot\_duration\_histograms.py\<close>



section \<open>Reference notions used in the statements\<close>

text \<open>A row of the table of jobs that carries only a start and a completion instant.\<close>

definition timing_row :: "datetime option \<Rightarrow> datetime option \<Rightarrow> job_record" where
  "timing_row s e =
     \<lparr> cluster_id = None, proc_id = None, job_status = 4, exit_code = 0, failed = False,
       job_start_time = s, input_start_time = None, input_end_time = None,
       output_start_time = None, output_end_time = None, job_end_time = None,
       completion_time = e, input_transfer_duration = None, job_duration = None,
       output_transfer_duration = None, total_duration = None \<rparr>"

text \<open>
  The number of jobs in flight at the instant \<open>c\<close>, as the specification words
  it: the jobs with both instants present whose half-open interval from start
  to completion contains \<open>c\<close>.
\<close>

definition jobs_containing :: "job_record list \<Rightarrow> datetime \<Rightarrow> nat" where
  "jobs_containing df c =
     length (filter (\<lambda>j. case (job_start_time j, completion_time j) of
                            (Some s, Some e) \<Rightarrow> s \<le> c \<and> c < e
                          | _ \<Rightarrow> False) df)"

text \<open>The rows the concurrency estimator works on, and their two columns.\<close>

definition valid_rows :: "job_record list \<Rightarrow> job_record list" where
  "valid_rows df = filter (\<lambda>j. notna (job_start_time j) \<and> notna (completion_time j)) df"

definition valid_starts :: "job_record list \<Rightarrow> datetime list" where
  "valid_starts df = map (\<lambda>j. the (job_start_time j)) (valid_rows df)"

definition valid_completions :: "job_record list \<Rightarrow> datetime list" where
  "valid_completions df = map (\<lambda>j. the (completion_time j)) (valid_rows df)"

text \<open>The completion instants the completion curve is built from.\<close>

definition completion_times :: "job_record list \<Rightarrow> datetime list" where
  "completion_times df =
     map (\<lambda>j. the (completion_time j)) (filter (\<lambda>j. notna (completion_time j)) df)"


section \<open>Auxiliary facts\<close>

lemma truthy_Some [simp]: "truthy (Some x) = (x \<noteq> 0)"
  by (simp add: truthy_def)

lemma truthy_None [simp]: "truthy None = False"
  by (simp add: truthy_def)

text \<open>What a conversion that did not raise has produced.\<close>

lemma fromtimestamp_if_Inr:
  "fromtimestamp_if fromtimestamp t = Inr d \<Longrightarrow>
     (case t of
        None \<Rightarrow> d = None
      | Some v \<Rightarrow> if v = 0 then d = None else (\<exists>x. fromtimestamp v = Inr x \<and> d = Some x))"
  by (auto simp add: fromtimestamp_if_def split: option.splits sum.splits if_splits)

lemma fromtimestamp_if_present:
  "fromtimestamp_if fromtimestamp t = Inr d \<Longrightarrow> d \<noteq> None \<longleftrightarrow> truthy t"
  by (auto simp add: fromtimestamp_if_def split: sum.splits if_splits)

lemma duration_if_cases:
  "duration_if a b =
     (case (a, b) of
        (Some s, Some e) \<Rightarrow> if s \<noteq> 0 \<and> e \<noteq> 0 then Some (e - s) else None
      | _ \<Rightarrow> None)"
  by (simp add: duration_if_def split: option.splits)

lemma duration_if_present: "duration_if a b \<noteq> None \<longleftrightarrow> truthy a \<and> truthy b"
  by (simp add: duration_if_def)

text \<open>The fields of a record that the normalizer has built.\<close>

lemma parquet_record_Inr:
  assumes "parquet_record fromtimestamp job = Inr r"
  shows "job_status r = get_or job ''JobStatus'' 0"
    and "exit_code r = get_or job ''ExitCode'' 0"
    and "failed r = (get_or job ''JobStatus'' 0 \<noteq> 4 \<or> get_or job ''ExitCode'' 0 \<noteq> 0)"
    and "fromtimestamp_if fromtimestamp (job ''JobCurrentStartDate'') = Inr (job_start_time r)"
    and "fromtimestamp_if fromtimestamp (job ''JobCurrentStartTransferInputDate'')
           = Inr (input_start_time r)"
    and "fromtimestamp_if fromtimestamp (job ''JobCurrentFinishTransferInputDate'')
           = Inr (input_end_time r)"
    and "fromtimestamp_if fromtimestamp (job ''JobCurrentStartTransferOutputDate'')
           = Inr (output_start_time r)"
    and "fromtimestamp_if fromtimestamp (job ''JobCurrentFinishTransferOutputDate'')
           = Inr (output_end_time r)"
    and "fromtimestamp_if fromtimestamp (job ''JobFinishedHookTime'') = Inr (job_end_time r)"
    and "fromtimestamp_if fromtimestamp (job ''CompletionDate'') = Inr (completion_time r)"
    and "input_transfer_duration r =
           duration_if (job ''JobCurrentStartTransferInputDate'')
             (job ''JobCurrentFinishTransferInputDate'')"
    and "job_duration r =
           duration_if (job ''JobCurrentStartDate'') (job ''JobFinishedHookTime'')"
    and "output_transfer_duration r =
           duration_if (job ''JobCurrentStartTransferOutputDate'')
             (job ''JobCurrentFinishTransferOutputDate'')"
    and "total_duration r =
           duration_if (job ''JobCurrentStartDate'') (job ''CompletionDate'')"
  using assms unfolding parquet_record_def Let_def
  by (auto split: sum.splits)

text \<open>
  The normalizer fails only with the exception of a conversion it called, on a
  timestamp that is present and not zero.
\<close>

lemma fromtimestamp_if_Inl:
  "fromtimestamp_if fromtimestamp t = Inl e \<Longrightarrow>
     \<exists>v. t = Some v \<and> v \<noteq> 0 \<and> fromtimestamp v = Inl e"
  by (cases t) (auto simp add: fromtimestamp_if_def split: sum.splits if_splits)

lemma parquet_record_Inl:
  assumes "parquet_record fromtimestamp job = Inl e"
  shows "\<exists>name v. job name = Some v \<and> v \<noteq> 0 \<and> fromtimestamp v = Inl e"
  using assms unfolding parquet_record_def Let_def
  by (auto split: sum.splits dest!: fromtimestamp_if_Inl)

text \<open>
  The normalizer builds a record whenever every timestamp it has to convert
  can be converted.
\<close>

lemma parquet_record_succeeds:
  assumes "\<And>v. v \<noteq> 0 \<Longrightarrow> \<exists>d. fromtimestamp v = Inr d"
  shows "\<exists>r. parquet_record fromtimestamp job = Inr r"
proof -
  have "\<exists>d. fromtimestamp_if fromtimestamp t = Inr d" for t
  proof (cases "truthy t")
    case True
    then have "the t \<noteq> 0" by (cases t) simp_all
    then obtain d where "fromtimestamp (the t) = Inr d" using assms by blast
    with True show ?thesis by (simp add: fromtimestamp_if_def)
  next
    case False
    then show ?thesis by (simp add: fromtimestamp_if_def)
  qed
  then show ?thesis
    unfolding parquet_record_def Let_def
    by (auto split: sum.splits) (metis sum.distinct(1))+
qed


text \<open>
  The sibling decomposition in \<^verbatim>\<open>plot_gantt_phases.py\<close> keeps a phase only
  when it is strictly positive, so none of its bars ends before it starts.
\<close>

lemma plot_gantt_phases_row_positive:
  "b \<in> set (plot_gantt_phases_row row) \<Longrightarrow> bar_start b < bar_end b \<and> 0 < bar_duration b"
  by (auto simp add: plot_gantt_phases_row_def bar_if_def Let_def split: if_splits)

lemma series_min_Min: "xs \<noteq> [] \<Longrightarrow> series_min xs = Min (set xs)"
  using Min.set_eq_fold [of "hd xs" "tl xs"] by (cases xs) (simp_all add: series_min_def)

lemma series_max_Max: "xs \<noteq> [] \<Longrightarrow> series_max xs = Max (set xs)"
  using Max.set_eq_fold [of "hd xs" "tl xs"] by (cases xs) (simp_all add: series_max_def)

text \<open>Selecting rows by a conjunction of two boolean columns is a filter.\<close>

lemma masked_rows:
  "map fst (filter snd (zip xs (map2 (\<and>) (map p xs) (map q xs)))) = filter (\<lambda>x. p x \<and> q x) xs"
  by (induction xs) auto

lemma count_running_valid_rows: "count_running (valid_rows df) c = jobs_containing df c"
  unfolding count_running_def jobs_containing_def valid_rows_def Let_def masked_rows
  by (induction df) (auto simp add: notna_def split: option.splits)

lemma date_range_nth:
  "date_range start periods freq = Inr bins \<Longrightarrow> i < length bins \<Longrightarrow>
     bins ! i = start + of_nat i * of_int freq"
  by (auto simp add: date_range_def split: if_splits)

lemma bin_center_at_date_range:
  assumes "date_range start periods freq = Inr bins" and "i + 1 < length bins"
  shows "bin_center_at bins i = start + (of_nat i + 1 / 2) * of_int freq"
proof -
  have a: "bins ! i = start + of_nat i * of_int freq"
    using assms by (simp add: date_range_nth)
  have b: "bins ! Suc i = start + (of_nat i + 1) * of_int freq"
    using assms date_range_nth [of start periods freq bins "Suc i"] by simp
  show ?thesis
    by (simp add: bin_center_at_def Let_def a b algebra_simps)
qed


section \<open>Record normalizer\<close>





text \<open>
  Claim C9, as the code has it. In every record the normalizer builds, each of
  the seven instants is absent when the raw field is absent or zero, and is
  otherwise present: it is the datetime that the conversion returns for the
  raw value. A timestamp of zero is thus not told from an absent one.
\<close>

theorem zero_timestamp_is_absent:
  assumes "parquet_record fromtimestamp job = Inr r"
  shows "(case job ''JobCurrentStartDate'' of
        None \<Rightarrow> job_start_time r = None
      | Some v \<Rightarrow> if v = 0 then job_start_time r = None
                  else (\<exists>d. fromtimestamp v = Inr d \<and> job_start_time r = Some d))
   \<and> (case job ''JobCurrentStartTransferInputDate'' of
        None \<Rightarrow> input_start_time r = None
      | Some v \<Rightarrow> if v = 0 then input_start_time r = None
                  else (\<exists>d. fromtimestamp v = Inr d \<and> input_start_time r = Some d))
   \<and> (case job ''JobCurrentFinishTransferInputDate'' of
        None \<Rightarrow> input_end_time r = None
      | Some v \<Rightarrow> if v = 0 then input_end_time r = None
                  else (\<exists>d. fromtimestamp v = Inr d \<and> input_end_time r = Some d))
   \<and> (case job ''JobCurrentStartTransferOutputDate'' of
        None \<Rightarrow> output_start_time r = None
      | Some v \<Rightarrow> if v = 0 then output_start_time r = None
                  else (\<exists>d. fromtimestamp v = Inr d \<and> output_start_time r = Some d))
   \<and> (case job ''JobCurrentFinishTransferOutputDate'' of
        None \<Rightarrow> output_end_time r = None
      | Some v \<Rightarrow> if v = 0 then output_end_time r = None
                  else (\<exists>d. fromtimestamp v = Inr d \<and> output_end_time r = Some d))
   \<and> (case job ''JobFinishedHookTime'' of
        None \<Rightarrow> job_end_time r = None
      | Some v \<Rightarrow> if v = 0 then job_end_time r = None
                  else (\<exists>d. fromtimestamp v = Inr d \<and> job_end_time r = Some d))
   \<and> (case job ''CompletionDate'' of
        None \<Rightarrow> completion_time r = None
      | Some v \<Rightarrow> if v = 0 then completion_time r = None
                  else (\<exists>d. fromtimestamp v = Inr d \<and> completion_time r = Some d))"
proof -
  note f = parquet_record_Inr [OF assms]
  show ?thesis
    using fromtimestamp_if_Inr [OF f(4)] fromtimestamp_if_Inr [OF f(5)]
      fromtimestamp_if_Inr [OF f(6)] fromtimestamp_if_Inr [OF f(7)]
      fromtimestamp_if_Inr [OF f(8)] fromtimestamp_if_Inr [OF f(9)]
      fromtimestamp_if_Inr [OF f(10)]
    by blast
qed

theorem zero_timestamp_is_absent_witness:
  "(\<exists>r. parquet_record Inr [''JobCurrentStartDate'' \<mapsto> 1700000000] = Inr r
        \<and> job_start_time r = Some 1700000000 \<and> completion_time r = None)
   \<and> (\<exists>r. parquet_record Inr [''CompletionDate'' \<mapsto> 0] = Inr r \<and> completion_time r = None)"
proof -
  obtain r1 where r1: "parquet_record Inr [''JobCurrentStartDate'' \<mapsto> 1700000000] = Inr r1"
    using parquet_record_succeeds [of Inr "[''JobCurrentStartDate'' \<mapsto> 1700000000]"] by auto
  obtain r2 where r2: "parquet_record Inr [''CompletionDate'' \<mapsto> 0] = Inr r2"
    using parquet_record_succeeds [of Inr "[''CompletionDate'' \<mapsto> 0]"] by auto
  from zero_timestamp_is_absent [OF r1] zero_timestamp_is_absent [OF r2] r1 r2
  show ?thesis by auto
qed

text \<open>
  The claim as stated fails: a \<open>JobCurrentStartDate\<close> that is present with the
  value zero yields an absent start instant, and the record built is the one
  built from no field at all.
\<close>

theorem zero_epoch_counterexample:
  "[''JobCurrentStartDate'' \<mapsto> (0::rat)] ''JobCurrentStartDate'' = Some 0
   \<and> parquet_record Inr [''JobCurrentStartDate'' \<mapsto> 0]
     = Inr \<lparr> cluster_id = None, proc_id = None, job_status = 0, exit_code = 0, failed = True,
             job_start_time = None, input_start_time = None, input_end_time = None,
             output_start_time = None, output_end_time = None, job_end_time = None,
             completion_time = None, input_transfer_duration = None, job_duration = None,
             output_transfer_duration = None, total_duration = None \<rparr>
   \<and> parquet_record Inr [''JobCurrentStartDate'' \<mapsto> 0] = parquet_record Inr Map.empty"
  by (simp add: parquet_record_def Let_def fromtimestamp_if_def duration_if_def get_or_def)

text \<open>
  Claim C4, as the code has it. In every record the normalizer builds, each of
  the four durations is present exactly when both of its endpoint instants
  are, and then it is the raw end timestamp minus the raw start timestamp;
  nothing keeps it from being negative.
\<close>

theorem durations_follow_instants:
  assumes "parquet_record fromtimestamp job = Inr r"
  shows "input_transfer_duration r =
     (case (job ''JobCurrentStartTransferInputDate'', job ''JobCurrentFinishTransferInputDate'') of
        (Some s, Some e) \<Rightarrow> if s \<noteq> 0 \<and> e \<noteq> 0 then Some (e - s) else None
      | _ \<Rightarrow> None)
   \<and> job_duration r =
     (case (job ''JobCurrentStartDate'', job ''JobFinishedHookTime'') of
        (Some s, Some e) \<Rightarrow> if s \<noteq> 0 \<and> e \<noteq> 0 then Some (e - s) else None
      | _ \<Rightarrow> None)
   \<and> output_transfer_duration r =
     (case (job ''JobCurrentStartTransferOutputDate'', job ''JobCurrentFinishTransferOutputDate'') of
        (Some s, Some e) \<Rightarrow> if s \<noteq> 0 \<and> e \<noteq> 0 then Some (e - s) else None
      | _ \<Rightarrow> None)
   \<and> total_duration r =
     (case (job ''JobCurrentStartDate'', job ''CompletionDate'') of
        (Some s, Some e) \<Rightarrow> if s \<noteq> 0 \<and> e \<noteq> 0 then Some (e - s) else None
      | _ \<Rightarrow> None)
   \<and> (input_transfer_duration r \<noteq> None \<longleftrightarrow>
        input_start_time r \<noteq> None \<and> input_end_time r \<noteq> None)
   \<and> (job_duration r \<noteq> None \<longleftrightarrow> job_start_time r \<noteq> None \<and> job_end_time r \<noteq> None)
   \<and> (output_transfer_duration r \<noteq> None \<longleftrightarrow>
        output_start_time r \<noteq> None \<and> output_end_time r \<noteq> None)
   \<and> (total_duration r \<noteq> None \<longleftrightarrow>
        job_start_time r \<noteq> None \<and> completion_time r \<noteq> None)"
proof -
  note f = parquet_record_Inr [OF assms]
  have vals:
    "input_transfer_duration r =
       (case (job ''JobCurrentStartTransferInputDate'', job ''JobCurrentFinishTransferInputDate'') of
          (Some s, Some e) \<Rightarrow> if s \<noteq> 0 \<and> e \<noteq> 0 then Some (e - s) else None
        | _ \<Rightarrow> None)"
    "job_duration r =
       (case (job ''JobCurrentStartDate'', job ''JobFinishedHookTime'') of
          (Some s, Some e) \<Rightarrow> if s \<noteq> 0 \<and> e \<noteq> 0 then Some (e - s) else None
        | _ \<Rightarrow> None)"
    "output_transfer_duration r =
       (case (job ''JobCurrentStartTransferOutputDate'', job ''JobCurrentFinishTransferOutputDate'') of
          (Some s, Some e) \<Rightarrow> if s \<noteq> 0 \<and> e \<noteq> 0 then Some (e - s) else None
        | _ \<Rightarrow> None)"
    "total_duration r =
       (case (job ''JobCurrentStartDate'', job ''CompletionDate'') of
          (Some s, Some e) \<Rightarrow> if s \<noteq> 0 \<and> e \<noteq> 0 then Some (e - s) else None
        | _ \<Rightarrow> None)"
    by (simp_all only: f(11-14) duration_if_cases)
  have present:
    "input_transfer_duration r \<noteq> None \<longleftrightarrow>
       input_start_time r \<noteq> None \<and> input_end_time r \<noteq> None"
    "job_duration r \<noteq> None \<longleftrightarrow> job_start_time r \<noteq> None \<and> job_end_time r \<noteq> None"
    "output_transfer_duration r \<noteq> None \<longleftrightarrow>
       output_start_time r \<noteq> None \<and> output_end_time r \<noteq> None"
    "total_duration r \<noteq> None \<longleftrightarrow> job_start_time r \<noteq> None \<and> completion_time r \<noteq> None"
    by (simp_all only: f(11-14) duration_if_present
        fromtimestamp_if_present [OF f(4)] fromtimestamp_if_present [OF f(5)]
        fromtimestamp_if_present [OF f(6)] fromtimestamp_if_present [OF f(7)]
        fromtimestamp_if_present [OF f(8)] fromtimestamp_if_present [OF f(9)]
        fromtimestamp_if_present [OF f(10)])
  from vals present show ?thesis by blast
qed

theorem durations_follow_instants_witness:
  "\<exists>r. parquet_record Inr
          [''JobCurrentStartTransferInputDate'' \<mapsto> 100, ''JobCurrentFinishTransferInputDate'' \<mapsto> 130]
        = Inr r
      \<and> input_transfer_duration r = Some 30 \<and> total_duration r = None
      \<and> input_start_time r \<noteq> None \<and> input_end_time r \<noteq> None"
proof -
  obtain r where r: "parquet_record Inr
      [''JobCurrentStartTransferInputDate'' \<mapsto> 100, ''JobCurrentFinishTransferInputDate'' \<mapsto> 130]
      = Inr r"
    using parquet_record_succeeds [of Inr
      "[''JobCurrentStartTransferInputDate'' \<mapsto> 100, ''JobCurrentFinishTransferInputDate'' \<mapsto> 130]"]
    by auto
  from durations_follow_instants [OF r] r show ?thesis
    by (intro exI [of _ r]) auto
qed

text \<open>
  The claim as stated fails: an input transfer recorded as finishing before it
  started gives a record whose input transfer duration is present and below
  zero.
\<close>

theorem negative_duration_counterexample:
  "parquet_record Inr
      [''JobCurrentStartTransferInputDate'' \<mapsto> 200, ''JobCurrentFinishTransferInputDate'' \<mapsto> 100]
     = Inr \<lparr> cluster_id = None, proc_id = None, job_status = 0, exit_code = 0, failed = True,
             job_start_time = None, input_start_time = Some 200, input_end_time = Some 100,
             output_start_time = None, output_end_time = None, job_end_time = None,
             completion_time = None, input_transfer_duration = Some (- 100),
             job_duration = None, output_transfer_duration = None, total_duration = None \<rparr>
   \<and> \<not> (0 \<le> (- 100 :: rat))"
  by (simp add: parquet_record_def Let_def fromtimestamp_if_def duration_if_def get_or_def)

section \<open>Phase decomposer\<close>




text \<open>
  Claim C6, where the code departs from it. \<^verbatim>\<open>gantt_chart.py\<close> appends the
  Input Transfer record of every job whose two input instants are present and
  not zero, in whatever order they stand: an interval that ends before it
  starts is emitted with a negative duration, not discarded.
\<close>

theorem gantt_records_keeps_reversed_interval:
  assumes "job ''JobCurrentStartTransferInputDate'' = Some s" and "s \<noteq> 0"
    and "job ''JobCurrentFinishTransferInputDate'' = Some e" and "e \<noteq> 0"
  shows "\<exists>r. r \<in> set (gantt_records job) \<and> ph_phase r = Input_Transfer
           \<and> start_time r = s \<and> end_time r = e \<and> duration r = e - s"
proof -
  define fl where "fl = (get_or job ''JobStatus'' 0 \<noteq> 4 \<or> get_or job ''ExitCode'' 0 \<noteq> 0)"
  have "phase_row job fl Input_Transfer s e \<in> set (gantt_records job)"
    using assms by (simp add: gantt_records_def Let_def fl_def)
  then show ?thesis
    by (intro exI [of _ "phase_row job fl Input_Transfer s e"]) (simp add: phase_row_def)
qed

theorem gantt_records_keeps_reversed_interval_witness:
  "\<exists>r. r \<in> set (gantt_records [''JobCurrentStartTransferInputDate'' \<mapsto> 200,
                                  ''JobCurrentFinishTransferInputDate'' \<mapsto> 100])
        \<and> end_time r < start_time r \<and> duration r = - 100"
  using gantt_records_keeps_reversed_interval
    [of "[''JobCurrentStartTransferInputDate'' \<mapsto> 200,
          ''JobCurrentFinishTransferInputDate'' \<mapsto> 100]" 200 100]
  by auto

section \<open>Concurrency estimator\<close>

text \<open>
  Claim C1. Whenever the estimator returns a series, there is one count per
  bin centre, the centre of bin \<open>i\<close> lies \<open>i + 1/2\<close> resolutions after the
  earliest start, and the count of the bin is the number of jobs, among those
  with both instants present, whose half-open interval from start to
  completion contains the centre.
\<close>

theorem concurrent_counts_half_open:
  assumes "plot_concurrent_jobs df resolution_seconds = Inr (Some r)"
    and "i < length (concurrent_counts r)"
  shows "length (bin_centers r) = length (concurrent_counts r)
     \<and> concurrent_counts r ! i = jobs_containing df (bin_centers r ! i)
     \<and> bin_centers r ! i =
         Min (set (valid_starts df)) + (of_nat i + 1 / 2) * of_int resolution_seconds"
proof -
  define start_time where "start_time = series_min (valid_starts df)"
  define end_time where "end_time = series_max (valid_completions df)"
  define num_bins where "num_bins = \<lceil>(end_time - start_time) / of_int resolution_seconds\<rceil>"
  from assms(1) obtain time_bins where
    ne: "valid_rows df \<noteq> []"
    and tb: "date_range start_time (num_bins + 1) resolution_seconds = Inr time_bins"
    and cs: "bin_centers r = map (bin_center_at time_bins) [0..<length time_bins - 1]"
    and cn: "concurrent_counts r = map (count_running (valid_rows df)) (bin_centers r)"
    unfolding plot_concurrent_jobs_def Let_def valid_rows_def [symmetric]
      valid_starts_def [symmetric] valid_completions_def [symmetric]
      start_time_def [symmetric] end_time_def [symmetric] num_bins_def [symmetric]
    by (auto split: if_splits sum.splits)
  have len: "length (bin_centers r) = length (concurrent_counts r)"
    by (simp add: cn)
  have i: "i < length time_bins - 1"
    using assms(2) cn cs by simp
  have "concurrent_counts r ! i = count_running (valid_rows df) (bin_centers r ! i)"
    using assms(2) cn by simp
  then have cnt: "concurrent_counts r ! i = jobs_containing df (bin_centers r ! i)"
    by (simp add: count_running_valid_rows)
  have st: "start_time = Min (set (valid_starts df))"
    using ne by (simp add: start_time_def series_min_Min valid_starts_def)
  have "bin_centers r ! i = bin_center_at time_bins i"
    using i cs by simp
  also have "\<dots> = start_time + (of_nat i + 1 / 2) * of_int resolution_seconds"
    using tb i by (intro bin_center_at_date_range) auto
  finally show ?thesis
    using len cnt st by simp
qed

theorem concurrent_counts_half_open_witness:
  "plot_concurrent_jobs
      [timing_row (Some 0) (Some 10), timing_row (Some 5) (Some 15), timing_row (Some 20) (Some 25)] 5
    = Inr (Some \<lparr> bin_centers = [5 / 2, 15 / 2, 25 / 2, 35 / 2, 45 / 2],
                   bin_centers_hours = [1 / 1440, 1 / 480, 1 / 288, 7 / 1440, 1 / 160],
                   concurrent_counts = [1, 2, 1, 0, 1],
                   max_concurrent = 2, mean_concurrent = 1, median_concurrent = 1 \<rparr>)
   \<and> jobs_containing
        [timing_row (Some 0) (Some 10), timing_row (Some 5) (Some 15), timing_row (Some 20) (Some 25)]
        (15 / 2) = 2
   \<and> jobs_containing
        [timing_row (Some 0) (Some 10), timing_row (Some 5) (Some 15), timing_row (Some 20) (Some 25)]
        (35 / 2) = 0"
proof -
  define df where "df =
    [timing_row (Some 0) (Some 10), timing_row (Some 5) (Some 15), timing_row (Some 20) (Some 25)]"
  define r where "r = \<lparr> bin_centers = [5 / 2, 15 / 2, 25 / 2, 35 / 2, 45 / 2 :: rat],
                   bin_centers_hours = [1 / 1440, 1 / 480, 1 / 288, 7 / 1440, 1 / 160],
                   concurrent_counts = [1, 2, 1, 0, 1],
                   max_concurrent = 2, mean_concurrent = 1, median_concurrent = 1 \<rparr>"
  have run: "plot_concurrent_jobs df 5 = Inr (Some r)"
    unfolding df_def r_def by code_simp
  have i1: "1 < length (concurrent_counts r)" and i3: "3 < length (concurrent_counts r)"
    by (simp_all add: r_def)
  from concurrent_counts_half_open [OF run i1] concurrent_counts_half_open [OF run i3]
  have "jobs_containing df (15 / 2) = 2 \<and> jobs_containing df (35 / 2) = 0"
    by (simp add: r_def)
  with run show ?thesis
    unfolding df_def r_def by simp
qed

text \<open>
  Claim C8, as the code has it. The estimator never checks the resolution.
  With no row that has both instants it returns without a series whatever the
  resolution; with such rows, a strictly positive resolution and a latest
  completion after the earliest start, it proceeds to a series of
  \<open>\<lceil>(T1 - T0) / resolution\<rceil>\<close> counts.
\<close>

theorem resolution_not_validated:
  "(valid_rows df = [] \<longrightarrow> plot_concurrent_jobs df resolution_seconds = Inr None)
   \<and> (valid_rows df \<noteq> [] \<and> 0 < resolution_seconds
        \<and> Min (set (valid_starts df)) < Max (set (valid_completions df))
      \<longrightarrow> (\<exists>r. plot_concurrent_jobs df resolution_seconds = Inr (Some r)
             \<and> concurrent_counts r \<noteq> []
             \<and> int (length (concurrent_counts r)) =
                 \<lceil>(Max (set (valid_completions df)) - Min (set (valid_starts df)))
                   / of_int resolution_seconds\<rceil>))"
proof (intro conjI impI)
  assume "valid_rows df = []"
  then show "plot_concurrent_jobs df resolution_seconds = Inr None"
    by (simp add: plot_concurrent_jobs_def valid_rows_def)
next
  define T0 where "T0 = Min (set (valid_starts df))"
  define T1 where "T1 = Max (set (valid_completions df))"
  define n where "n = \<lceil>(T1 - T0) / of_int resolution_seconds\<rceil>"
  assume "valid_rows df \<noteq> [] \<and> 0 < resolution_seconds \<and> T0 < T1"
  then have ne: "valid_rows df \<noteq> []" and res: "0 < resolution_seconds" and lt: "T0 < T1"
    by simp_all
  have s0: "series_min (valid_starts df) = T0"
    using ne by (simp add: series_min_Min T0_def valid_starts_def)
  have s1: "series_max (valid_completions df) = T1"
    using ne by (simp add: series_max_Max T1_def valid_completions_def)
  have "0 < (T1 - T0) / of_int resolution_seconds"
    using res lt by simp
  then have npos: "0 < n"
    unfolding n_def by (simp add: ceiling_less_iff)
  then have m: "nat (n + 1) - 1 = nat n" "nat n \<noteq> 0"
    by simp_all
  have dr: "date_range T0 (n + 1) resolution_seconds
      = Inr (map (\<lambda>k. T0 + of_nat k * of_int resolution_seconds) [0..<nat (n + 1)])"
    using npos by (simp add: date_range_def)
  show "\<exists>r. plot_concurrent_jobs df resolution_seconds = Inr (Some r)
             \<and> concurrent_counts r \<noteq> []
             \<and> int (length (concurrent_counts r)) = n"
    using ne res npos m
    unfolding plot_concurrent_jobs_def valid_rows_def [symmetric] Let_def
      valid_starts_def [symmetric] valid_completions_def [symmetric] s0 s1 n_def [symmetric] dr
    by simp
qed

theorem resolution_not_validated_witness:
  "plot_concurrent_jobs [timing_row None (Some 40)] 30 = Inr None
   \<and> (\<exists>r. plot_concurrent_jobs [timing_row (Some 0) (Some 100), timing_row (Some 30) (Some 45)] 30
             = Inr (Some r)
          \<and> concurrent_counts r \<noteq> [] \<and> int (length (concurrent_counts r)) = 4)"
proof -
  define df where "df = [timing_row (Some 0) (Some 100), timing_row (Some 30) (Some 45)]"
  have e: "valid_rows [timing_row None (Some 40)] = []"
    by code_simp
  have v: "valid_rows df \<noteq> []"
    unfolding df_def by code_simp
  have t0: "Min (set (valid_starts df)) = 0" and t1: "Max (set (valid_completions df)) = 100"
    unfolding df_def by code_simp+
  have c: "\<lceil>(100 - 0) / rat_of_int 30\<rceil> = 4"
    by code_simp
  from resolution_not_validated [of "[timing_row None (Some 40)]" 30]
    resolution_not_validated [of df 30]
  show ?thesis
    unfolding df_def [symmetric] using e v t0 t1 c by simp
qed

text \<open>
  The claim as stated fails: with no usable row the estimator returns normally
  for a resolution of zero and for a negative one, without rejecting the call.
\<close>

theorem nonpositive_resolution_counterexample:
  "plot_concurrent_jobs [] 0 = Inr None
   \<and> plot_concurrent_jobs [timing_row (Some 5) None] (- 30) = Inr None"
  by (simp add: plot_concurrent_jobs_def notna_def timing_row_def)

section \<open>Completion curve\<close>

text \<open>
  When the completion instants are not all the same, the builder reports the
  first and last of them, their difference in seconds, and the rate as the
  number of completions divided by that difference in minutes.
\<close>

lemma completion_curve_statistics:
  assumes "completion_times df \<noteq> []"
    and "Max (set (completion_times df)) \<noteq> Min (set (completion_times df))"
  shows "\<exists>c. plot_completion_curve df = Inr c
      \<and> first_completion c = Min (set (completion_times df))
      \<and> last_completion c = Max (set (completion_times df))
      \<and> elapsed_seconds c = Max (set (completion_times df)) - Min (set (completion_times df))
      \<and> jobs_per_minute c = of_nat (length (completion_times df))
           / ((Max (set (completion_times df)) - Min (set (completion_times df))) / 60)"
proof -
  define ts where "ts = sort_key (\<lambda>t. t) (completion_times df)"
  have st: "set ts = set (completion_times df)" "length ts = length (completion_times df)"
    by (simp_all add: ts_def)
  have ne: "ts \<noteq> []" using assms(1) st(2) by auto
  have mn: "series_min ts = Min (set (completion_times df))"
    using ne st by (simp add: series_min_Min)
  have mx: "series_max ts = Max (set (completion_times df))"
    using ne st by (simp add: series_max_Max)
  show ?thesis
    using ne assms(2) st(2)
    unfolding plot_completion_curve_def completion_times_def [symmetric] ts_def [symmetric]
      Let_def mn mx
    by simp
qed

text \<open>
  Claim C7, where the code departs from it. When there is at least one
  completion and the first and the last completion coincide, so that the
  elapsed time is zero, the builder does not report an undefined rate: it
  performs the division and the call ends in the division by zero.
\<close>

theorem completion_rate_divides_by_zero:
  assumes "completion_times df \<noteq> []"
    and "Max (set (completion_times df)) = Min (set (completion_times df))"
  shows "plot_completion_curve df = Inl ZeroDivisionError"
proof -
  define ts where "ts = sort_key (\<lambda>t. t) (completion_times df)"
  have st: "set ts = set (completion_times df)" "length ts = length (completion_times df)"
    by (simp_all add: ts_def)
  have ne: "ts \<noteq> []" using assms(1) st(2) by auto
  have mn: "series_min ts = Min (set (completion_times df))"
    using ne st by (simp add: series_min_Min)
  have mx: "series_max ts = Max (set (completion_times df))"
    using ne st by (simp add: series_max_Max)
  show ?thesis
    using ne assms(2)
    unfolding plot_completion_curve_def completion_times_def [symmetric] ts_def [symmetric]
      Let_def mn mx
    by simp
qed

theorem completion_rate_divides_by_zero_witness:
  "plot_completion_curve [timing_row None (Some 50)] = Inl ZeroDivisionError
   \<and> plot_completion_curve [timing_row None (Some 50), timing_row None None, timing_row None (Some 50)]
       = Inl ZeroDivisionError"
proof -
  have a: "completion_times [timing_row None (Some 50)] = [50]"
    by code_simp
  have b: "completion_times
      [timing_row None (Some 50), timing_row None None, timing_row None (Some 50)] = [50, 50]"
    by code_simp
  show ?thesis
    using completion_rate_divides_by_zero [of "[timing_row None (Some 50)]"]
      completion_rate_divides_by_zero
        [of "[timing_row None (Some 50), timing_row None None, timing_row None (Some 50)]"]
    by (simp add: a b)
qed

section \<open>Distribution analyzer\<close>



end
